theory Spec2Isabelle
  imports Main
begin

section \<open>Data model\<close>

text \<open>
  The notification service keeps three tables (notifications, delivery logs, rate-limit
  windows) behind Prisma, publishes work items to SQS and writes log lines.  Points in
  time are milliseconds since the epoch (\<open>Date.getTime()\<close>).  The bookkeeping columns
  \<open>createdAt\<close>/\<open>updatedAt\<close>, the delivery log's \<open>responseTimeMs\<close>/\<open>apiResponse\<close> and the
  request's \<open>metadata\<close> blob are not modelled; template and text bodies are opaque
  JSON texts.  The provider's numeric error code is stored by the source as its decimal
  text (\<open>code?.toString()\<close>); the model keeps the number.
\<close>

datatype NotificationStatus =
  queued | processing | sent | delivered | read | failed | rate_limited | scheduled

datatype NotificationPriority = high | normal | low

record Notification =
  nid :: string
  tenantId :: string
  eventType :: string
  recipientPhone :: string
  recipientCountryCode :: "string option"
  template :: "string option"
  message :: "string option"
  priority :: NotificationPriority
  scheduledFor :: "int option"
  traceId :: string
  status :: NotificationStatus
  attemptNumber :: int
  maxAttempts :: int
  whatsappMessageId :: "string option"
  errorCode :: "int option"
  errorMessage :: "string option"
  sentAt :: "int option"
  deliveredAt :: "int option"
  readAt :: "int option"
  failedAt :: "int option"
  nextRetryAt :: "int option"

record DeliveryLog =
  notificationId :: string
  logAttemptNumber :: int
  logStatus :: NotificationStatus
  logWhatsappMessageId :: "string option"
  logErrorCode :: "int option"
  logErrorMessage :: "string option"

record RateLimit =
  rlRecipientPhone :: string
  windowStart :: int
  windowEnd :: int
  messageCount :: int

record SQSMessagePayload =
  p_id :: string
  event_type :: string
  phone_number :: string
  country_code :: "string option"
  p_template :: "string option"
  p_message :: "string option"
  p_priority :: NotificationPriority
  attempt_number :: int
  max_attempts :: int
  scheduled_for :: "int option"
  trace_id :: string
  tenant_id :: string

datatype Level = INFO | WARN | ERROR

record World =
  notifications :: "string \<rightharpoonup> Notification"
  deliveryLogs :: "DeliveryLog list"
  rateLimits :: "RateLimit list"
  sqsAvailable :: bool
  sqs :: "SQSMessagePayload list"
  logs :: "(Level \<times> string) list"

text \<open>
  Exceptions are values.  \<open>Error m\<close> is a plain \<open>new Error(m)\<close>; \<open>AxiosError m r\<close> carries
  the optional HTTP response as (status, \<open>data.error.code\<close>); \<open>PrismaError c m\<close> is a known
  request error of the database client (P2025 record not found, P2002 unique constraint,
  P2003 foreign key); \<open>PrismaValidationError m\<close> is the client's refusal of an argument
  (a missing unique key, an invalid Date) before any query; \<open>AppError name m statusCode code\<close>
  is the class family of \<open>utils/errors.ts\<close>.
\<close>

datatype error =
    Error string
  | TypeError string
  | AxiosError string "(int \<times> int option) option"
  | PrismaError string string
  | PrismaValidationError string
  | AppError string string int string

fun err_message :: "error \<Rightarrow> string" where
  "err_message (Error m) = m"
| "err_message (TypeError m) = m"
| "err_message (AxiosError m r) = m"
| "err_message (PrismaError c m) = m"
| "err_message (PrismaValidationError m) = m"
| "err_message (AppError n m s c) = m"

fun err_name :: "error \<Rightarrow> string" where
  "err_name (Error m) = ''Error''"
| "err_name (TypeError m) = ''TypeError''"
| "err_name (AxiosError m r) = ''AxiosError''"
| "err_name (PrismaError c m) = ''PrismaClientKnownRequestError''"
| "err_name (PrismaValidationError m) = ''PrismaClientValidationError''"
| "err_name (AppError n m s c) = n"

fun err_statusCode :: "error \<Rightarrow> int option" where
  "err_statusCode (AppError n m s c) = Some s"
| "err_statusCode _ = None"

fun err_code :: "error \<Rightarrow> string option" where
  "err_code (AppError n m s c) = Some c"
| "err_code (PrismaError c m) = Some c"
| "err_code _ = None"

fun err_response :: "error \<Rightarrow> (int \<times> int option) option" where
  "err_response (AxiosError m r) = r"
| "err_response _ = None"

text \<open>\<open>error.response?.data?.error?.code\<close>\<close>

definition err_providerCode :: "error \<Rightarrow> int option" where
  "err_providerCode e = (case err_response e of None \<Rightarrow> None | Some (st, c) \<Rightarrow> c)"

definition log :: "Level \<Rightarrow> string \<Rightarrow> World \<Rightarrow> World" where
  "log lvl msg w = w\<lparr>logs := logs w @ [(lvl, msg)]\<rparr>"

section \<open>NotificationRepository\<close>

record CreateNotificationData =
  c_id :: string
  c_tenantId :: string
  c_eventType :: string
  c_recipientPhone :: string
  c_recipientCountryCode :: "string option"
  c_template :: "string option"
  c_message :: "string option"
  c_priority :: NotificationPriority
  c_scheduledFor :: "int option"
  c_traceId :: string

text \<open>
  \<open>create\<close>: the row is always written with \<open>status: NotificationStatus.queued\<close>,
  \<open>attemptNumber: 0\<close>, \<open>maxAttempts: 5\<close>.  The id is the primary key.
\<close>

definition create :: "CreateNotificationData \<Rightarrow> World \<Rightarrow> (error + Notification) \<times> World" where
  "create d w =
     (case notifications w (c_id d) of
        Some old \<Rightarrow> (Inl (PrismaError ''P2002'' ''Unique constraint failed''), w)
      | None \<Rightarrow>
          (let n = \<lparr> nid = c_id d, tenantId = c_tenantId d, eventType = c_eventType d,
                     recipientPhone = c_recipientPhone d,
                     recipientCountryCode = c_recipientCountryCode d,
                     template = c_template d, message = c_message d,
                     priority = c_priority d, scheduledFor = c_scheduledFor d,
                     traceId = c_traceId d, status = queued, attemptNumber = 0,
                     maxAttempts = 5, whatsappMessageId = None, errorCode = None,
                     errorMessage = None, sentAt = None, deliveredAt = None,
                     readAt = None, failedAt = None, nextRetryAt = None \<rparr>
           in (Inr n, w\<lparr>notifications := (notifications w)(c_id d \<mapsto> n)\<rparr>)))"

text \<open>\<open>findById\<close>: \<open>findUnique({ where: { id } })\<close>, a lookup by primary key.\<close>

definition findById :: "string \<Rightarrow> World \<Rightarrow> (error + Notification option) \<times> World" where
  "findById i w = (Inr (notifications w i), w)"

text \<open>
  The \<open>updates\<close> object of \<open>updateStatus\<close>: a key that is absent (\<open>undefined\<close>) leaves the
  column as it is.
\<close>

record StatusUpdates =
  u_whatsappMessageId :: "string option"
  u_errorCode :: "int option"
  u_errorMessage :: "string option"
  u_sentAt :: "int option"
  u_deliveredAt :: "int option"
  u_readAt :: "int option"
  u_failedAt :: "int option"

definition no_updates :: StatusUpdates where
  "no_updates = \<lparr> u_whatsappMessageId = None, u_errorCode = None, u_errorMessage = None,
                   u_sentAt = None, u_deliveredAt = None, u_readAt = None, u_failedAt = None \<rparr>"

definition patch :: "'a option \<Rightarrow> 'a option \<Rightarrow> 'a option" where
  "patch u old = (case u of None \<Rightarrow> old | Some v \<Rightarrow> Some v)"

definition apply_updates :: "NotificationStatus \<Rightarrow> StatusUpdates \<Rightarrow> Notification \<Rightarrow> Notification" where
  "apply_updates st u n =
     n\<lparr> status := st,
        whatsappMessageId := patch (u_whatsappMessageId u) (whatsappMessageId n),
        errorCode := patch (u_errorCode u) (errorCode n),
        errorMessage := patch (u_errorMessage u) (errorMessage n),
        sentAt := patch (u_sentAt u) (sentAt n),
        deliveredAt := patch (u_deliveredAt u) (deliveredAt n),
        readAt := patch (u_readAt u) (readAt n),
        failedAt := patch (u_failedAt u) (failedAt n) \<rparr>"

text \<open>
  \<open>updateStatus\<close>: \<open>prisma.notification.update({ where: { id }, data: { status, ...updates } })\<close>.
  The only failure is the missing row.
\<close>

definition updateStatus ::
  "string \<Rightarrow> NotificationStatus \<Rightarrow> StatusUpdates \<Rightarrow> World \<Rightarrow> (error + Notification) \<times> World" where
  "updateStatus i st u w =
     (case notifications w i of
        None \<Rightarrow> (Inl (PrismaError ''P2025'' ''Record to update not found''), w)
      | Some n \<Rightarrow>
          (let n' = apply_updates st u n
           in (Inr n', w\<lparr>notifications := (notifications w)(i \<mapsto> n')\<rparr>)))"

text \<open>\<open>incrementAttempt\<close>: \<open>attemptNumber: { increment: 1 }, nextRetryAt\<close>.\<close>

definition incrementAttempt ::
  "string \<Rightarrow> int option \<Rightarrow> World \<Rightarrow> (error + Notification) \<times> World" where
  "incrementAttempt i nextRetry w =
     (case notifications w i of
        None \<Rightarrow> (Inl (PrismaError ''P2025'' ''Record to update not found''), w)
      | Some n \<Rightarrow>
          (let n' = n\<lparr> attemptNumber := attemptNumber n + 1,
                        nextRetryAt := patch nextRetry (nextRetryAt n) \<rparr>
           in (Inr n', w\<lparr>notifications := (notifications w)(i \<mapsto> n')\<rparr>)))"


definition dueScheduled :: "int \<Rightarrow> Notification \<Rightarrow> bool" where
  "dueScheduled now n =
     (status n = scheduled \<and> (case scheduledFor n of None \<Rightarrow> False | Some t \<Rightarrow> t \<le> now))"

text \<open>
  \<open>DeliveryLogRepository.create\<close>: an append; the row references its notification
  (\<open>notification_id ... REFERENCES notifications(id)\<close>).
\<close>

definition deliveryLog_create :: "DeliveryLog \<Rightarrow> World \<Rightarrow> (error + DeliveryLog) \<times> World" where
  "deliveryLog_create d w =
     (case notifications w (notificationId d) of
        None \<Rightarrow> (Inl (PrismaError ''P2003'' ''Foreign key constraint failed''), w)
      | Some n \<Rightarrow> (Inr d, w\<lparr>deliveryLogs := deliveryLogs w @ [d]\<rparr>))"

section \<open>RateLimitRepository\<close>

text \<open>
  \<open>checkLimit\<close> sums \<open>messageCount\<close> over the recipient's rows with
  \<open>windowEnd > now\<close> and \<open>windowStart > now - 1h\<close>; the SQL sum of no rows is null, and
  \<open>count._sum.messageCount || 0\<close> turns null (and 0) into 0.  Both clock readings of the
  function are the one \<open>now\<close>.
\<close>

definition hourMs :: int where
  "hourMs = 60 * 60 * 1000"

definition inCheckedWindow :: "string \<Rightarrow> int \<Rightarrow> RateLimit \<Rightarrow> bool" where
  "inCheckedWindow recipient now r =
     (rlRecipientPhone r = recipient \<and> windowEnd r > now \<and> windowStart r > now - hourMs)"

definition sumMessageCount :: "RateLimit list \<Rightarrow> int option" where
  "sumMessageCount rows = (if rows = [] then None else Some (sum_list (map messageCount rows)))"

definition checkLimit :: "string \<Rightarrow> int \<Rightarrow> int \<Rightarrow> World \<Rightarrow> bool" where
  "checkLimit recipient limitPerHour now w =
     (let oneHourAgo = now - hourMs;
          agg = sumMessageCount
                  (filter (\<lambda>r. rlRecipientPhone r = recipient \<and> windowEnd r > now
                                \<and> windowStart r > oneHourAgo) (rateLimits w));
          currentCount = (case agg of None \<Rightarrow> 0 | Some c \<Rightarrow> if c = 0 then 0 else c)
      in currentCount < limitPerHour)"

text \<open>
  \<open>increment\<close>: the window starts at the current hour (the source aligns in local time;
  the model takes a zone whose offset is a whole number of hours) and lasts one hour.
  The first row of the recipient with that start is incremented, else a row with count
  1 is created.
\<close>

fun bumpFirst :: "string \<Rightarrow> int \<Rightarrow> RateLimit list \<Rightarrow> RateLimit list option" where
  "bumpFirst recipient ws [] = None"
| "bumpFirst recipient ws (r # rs) =
     (if rlRecipientPhone r = recipient \<and> windowStart r = ws
      then Some (r\<lparr>messageCount := messageCount r + 1\<rparr> # rs)
      else (case bumpFirst recipient ws rs of None \<Rightarrow> None | Some rs' \<Rightarrow> Some (r # rs')))"

definition increment :: "string \<Rightarrow> int \<Rightarrow> World \<Rightarrow> World" where
  "increment recipient now w =
     (let ws = now - now mod hourMs;
          we = ws + hourMs
      in (case bumpFirst recipient ws (rateLimits w) of
            Some rs' \<Rightarrow> w\<lparr>rateLimits := rs'\<rparr>
          | None \<Rightarrow>
              w\<lparr>rateLimits := rateLimits w @
                   [\<lparr> rlRecipientPhone = recipient, windowStart = ws, windowEnd = we,
                      messageCount = 1 \<rparr>]\<rparr>))"

text \<open>
  The admission rule in the specification's words: the sum of \<open>message_count\<close> across
  the recipient's windows overlapping \<open>[now - 1h, now]\<close> is strictly less than the limit.
\<close>

definition overlapsLastHour :: "int \<Rightarrow> RateLimit \<Rightarrow> bool" where
  "overlapsLastHour now r = (windowStart r \<le> now \<and> now - hourMs \<le> windowEnd r)"

definition check_spec_sliding :: "string \<Rightarrow> int \<Rightarrow> int \<Rightarrow> World \<Rightarrow> bool" where
  "check_spec_sliding recipient limitPerHour now w =
     (sum_list (map messageCount
        (filter (\<lambda>r. rlRecipientPhone r = recipient \<and> overlapsLastHour now r) (rateLimits w)))
      < limitPerHour)"

section \<open>Ingestion: the notification service and its route\<close>

record NotificationRequest =
  r_event_type :: string
  r_phone_number :: string
  r_country_code :: "string option"
  r_template :: "string option"
  r_message :: "string option"
  r_priority :: NotificationPriority
  r_scheduled_for :: "int option"

text \<open>
  \<open>publishMessage\<close>: the SQS client either accepts the message or the function throws
  \<open>Error('Failed to publish message to queue')\<close>.
\<close>

definition publishMessage :: "SQSMessagePayload \<Rightarrow> World \<Rightarrow> (error + unit) \<times> World" where
  "publishMessage p w =
     (if sqsAvailable w
      then (Inr (), log INFO ''Message published to SQS'' (w\<lparr>sqs := sqs w @ [p]\<rparr>))
      else (Inl (Error ''Failed to publish message to queue''),
            log ERROR ''Failed to publish message to SQS'' w))"

record CreateResult =
  res_id :: string
  res_status :: string

text \<open>
  \<open>createNotification\<close>.  The two \<open>randomUUID()\<close> results and the clock are inputs.
  \<open>scheduled_for\<close> has passed the schema's datetime check, so it is a point in time.
\<close>

definition createNotification ::
  "string \<Rightarrow> string \<Rightarrow> int \<Rightarrow> NotificationRequest \<Rightarrow> string \<Rightarrow> World
     \<Rightarrow> (error + CreateResult) \<times> World" where
  "createNotification notificationId' traceId' now request apiKey w =
     (if \<not> checkLimit (r_phone_number request) 10 now w
      then (Inl (Error ''Rate limit exceeded''), w)
      else
        (case create \<lparr> c_id = notificationId', c_tenantId = apiKey,
                       c_eventType = r_event_type request,
                       c_recipientPhone = r_phone_number request,
                       c_recipientCountryCode = r_country_code request,
                       c_template = r_template request, c_message = r_message request,
                       c_priority = r_priority request,
                       c_scheduledFor = r_scheduled_for request,
                       c_traceId = traceId' \<rparr> w of
           (Inl e, w1) \<Rightarrow> (Inl e, w1)
         | (Inr notification, w1) \<Rightarrow>
             (let w2 = increment (r_phone_number request) now w1;
                  payload = \<lparr> p_id = nid notification, event_type = eventType notification,
                              phone_number = recipientPhone notification,
                              country_code = recipientCountryCode notification,
                              p_template = template notification,
                              p_message = message notification,
                              p_priority = priority notification,
                              attempt_number = 0, max_attempts = 5,
                              scheduled_for = scheduledFor notification,
                              trace_id = traceId notification,
                              tenant_id = tenantId notification \<rparr>;
                  w3 = log INFO ''Creating notification'' w2
              in (case publishMessage payload w3 of
                    (Inl e, w4) \<Rightarrow> (Inl e, w4)
                  | (Inr u, w4) \<Rightarrow>
                      (Inr \<lparr> res_id = notificationId', res_status = ''queued'' \<rparr>, w4)))))"

text \<open>
  The global error handler: \<open>statusCode = error.statusCode || 500\<close>; in production a 500
  hides the message and drops the code.  The reply body has exactly the fields
  \<open>error\<close>, \<open>message\<close>, \<open>code\<close>, \<open>traceId\<close>.
\<close>

record ErrorResponse =
  resp_error :: string
  resp_message :: string
  resp_code :: "string option"
  resp_traceId :: string

datatype ReplyBody = Created CreateResult | Failure ErrorResponse

definition orElse :: "'a option \<Rightarrow> 'a \<Rightarrow> 'a" where
  "orElse v d = (case v of None \<Rightarrow> d | Some x \<Rightarrow> x)"

definition errorHandler :: "bool \<Rightarrow> string \<Rightarrow> error \<Rightarrow> World \<Rightarrow> (int \<times> ReplyBody) \<times> World" where
  "errorHandler production reqId err w =
     (let w1 = log ERROR ''Request error'' w;
          statusCode = (case err_statusCode err of None \<Rightarrow> 500
                        | Some s \<Rightarrow> if s = 0 then 500 else s);
          errorResponse =
            \<lparr> resp_error = (if err_name err = [] then ''Internal Server Error'' else err_name err),
              resp_message = (if err_message err = [] then ''An unexpected error occurred''
                              else err_message err),
              resp_code = Some (case err_code err of None \<Rightarrow> ''INTERNAL_ERROR''
                                | Some c \<Rightarrow> if c = [] then ''INTERNAL_ERROR'' else c),
              resp_traceId = reqId \<rparr>;
          errorResponse' =
            (if production \<and> statusCode = 500
             then errorResponse\<lparr> resp_message := ''An unexpected error occurred'',
                                 resp_code := None \<rparr>
             else errorResponse)
      in ((statusCode, Failure errorResponse'), w1))"

text \<open>
  \<open>POST /v1/notifications\<close> after its pre-handlers: 201 with the result, and an exception
  of \<open>createNotification\<close> goes to the error handler.
\<close>

definition postNotification ::
  "bool \<Rightarrow> string \<Rightarrow> string \<Rightarrow> string \<Rightarrow> int \<Rightarrow> NotificationRequest \<Rightarrow> string \<Rightarrow> World
     \<Rightarrow> (int \<times> ReplyBody) \<times> World" where
  "postNotification production reqId notificationId' traceId' now request apiKey w =
     (case createNotification notificationId' traceId' now request apiKey w of
        (Inr result, w1) \<Rightarrow> ((201, Created result), w1)
      | (Inl e, w1) \<Rightarrow> errorHandler production reqId e w1)"

section \<open>The message processor\<close>

text \<open>
  \<open>WhatsAppClient.isRetryableError\<close>: no response (a network error, or any exception that
  is not an HTTP error) is retryable; so are the listed HTTP statuses and provider codes.
\<close>

definition isRetryableError :: "error \<Rightarrow> bool" where
  "isRetryableError err =
     (case err_response err of
        None \<Rightarrow> True
      | Some (st, providerCode) \<Rightarrow>
          if st \<in> set [408, 429, 500, 502, 503, 504] then True
          else (case providerCode of None \<Rightarrow> (0::int) | Some c \<Rightarrow> c) \<in> set [1, 2, 4, 80007])"

text \<open>
  \<open>sendWhatsAppMessage\<close>: \<open>api\<close> is what the provider call settles to (the list of
  \<open>response.messages[i].id\<close>, or the rejection).
\<close>

definition sendWhatsAppMessage :: "(error + string list) \<Rightarrow> SQSMessagePayload \<Rightarrow> error + string list" where
  "sendWhatsAppMessage api payload =
     (if p_template payload \<noteq> None then api
      else if p_message payload \<noteq> None then api
      else Inl (Error ''No message content provided''))"

definition errorUpdates :: "error \<Rightarrow> StatusUpdates" where
  "errorUpdates err = no_updates\<lparr> u_errorCode := err_providerCode err,
                                   u_errorMessage := Some (err_message err) \<rparr>"

text \<open>
  The binding of \<open>import { calculateRetryDelay } from '@whatsapp-notif/shared'\<close> in the
  processor.  The package's barrel \<open>index.ts\<close> re-exports the type modules, the schemas,
  the logger, the errors, the database client, the three repositories, the WhatsApp
  client and the two monitoring modules; none of them declares \<open>calculateRetryDelay\<close>
  (the unit tests import it from \<open>utils/retry\<close>, which the barrel does not name).  The
  binding is therefore \<open>undefined\<close>, \<open>None\<close> here, and calling it throws a TypeError.
\<close>

definition calculateRetryDelay :: "(int \<Rightarrow> int) option" where
  "calculateRetryDelay = None"

text \<open>\<open>handleError\<close>.\<close>

definition handleError ::
  "SQSMessagePayload \<Rightarrow> error \<Rightarrow> int \<Rightarrow> World \<Rightarrow> (error + unit) \<times> World" where
  "handleError payload err now w =
     (let attemptNumber = attempt_number payload + 1;
          isRetryable = isRetryableError err;
          w1 = log ERROR ''Failed to send notification'' w
      in (case deliveryLog_create
                 \<lparr> notificationId = p_id payload, logAttemptNumber = attemptNumber,
                   logStatus = failed, logWhatsappMessageId = None,
                   logErrorCode = err_providerCode err,
                   logErrorMessage = Some (err_message err) \<rparr> w1 of
            (Inl e, w2) \<Rightarrow> (Inl e, w2)
          | (Inr l, w2) \<Rightarrow>
              if isRetryable \<and> attemptNumber < max_attempts payload
              then
                (case calculateRetryDelay of
                   None \<Rightarrow> (Inl (TypeError ''calculateRetryDelay is not a function''), w2)
                 | Some delayOf \<Rightarrow>
                     (let retryDelay = delayOf attemptNumber;
                          nextRetryAt' = now + retryDelay
                      in (case updateStatus (p_id payload) failed (errorUpdates err) w2 of
                            (Inl e, w3) \<Rightarrow> (Inl e, w3)
                          | (Inr n3, w3) \<Rightarrow>
                              (case incrementAttempt (p_id payload) (Some nextRetryAt') w3 of
                                 (Inl e, w4) \<Rightarrow> (Inl e, w4)
                               | (Inr n4, w4) \<Rightarrow>
                                   (Inr (), log INFO ''Notification will be retried'' w4)))))
              else
                (case updateStatus (p_id payload) failed
                        ((errorUpdates err)\<lparr> u_failedAt := Some now \<rparr>) w2 of
                   (Inl e, w3) \<Rightarrow> (Inl e, w3)
                 | (Inr n3, w3) \<Rightarrow>
                     (Inr (), log ERROR ''Notification permanently failed'' w3))))"

text \<open>The \<open>try\<close> block of \<open>processMessage\<close>.\<close>

definition processMessage_try ::
  "(error + string list) \<Rightarrow> SQSMessagePayload \<Rightarrow> int \<Rightarrow> World \<Rightarrow> (error + unit) \<times> World" where
  "processMessage_try api payload now w =
     (case updateStatus (p_id payload) processing no_updates w of
        (Inl e, w1) \<Rightarrow> (Inl e, w1)
      | (Inr n1, w1) \<Rightarrow>
          (case sendWhatsAppMessage api payload of
             Inl e \<Rightarrow> (Inl e, w1)
           | Inr msgs \<Rightarrow>
               (let firstId = (case msgs of [] \<Rightarrow> None | m # ms \<Rightarrow> Some m)
                in (case updateStatus (p_id payload) sent
                           (no_updates\<lparr> u_whatsappMessageId := firstId,
                                        u_sentAt := Some now \<rparr>) w1 of
                      (Inl e, w2) \<Rightarrow> (Inl e, w2)
                    | (Inr n2, w2) \<Rightarrow>
                        (case deliveryLog_create
                                \<lparr> notificationId = p_id payload,
                                  logAttemptNumber = attempt_number payload + 1,
                                  logStatus = sent, logWhatsappMessageId = firstId,
                                  logErrorCode = None, logErrorMessage = None \<rparr> w2 of
                           (Inl e, w3) \<Rightarrow> (Inl e, w3)
                         | (Inr l, w3) \<Rightarrow>
                             (Inr (), log INFO ''Notification sent successfully'' w3))))))"

text \<open>\<open>processMessage\<close>: \<open>body\<close> is the parsed \<open>message.Body\<close>, \<open>None\<close> when it is empty.\<close>

definition processMessage ::
  "(error + string list) \<Rightarrow> SQSMessagePayload option \<Rightarrow> int \<Rightarrow> World
     \<Rightarrow> (error + unit) \<times> World" where
  "processMessage api body now w =
     (case body of
        None \<Rightarrow> (Inl (Error ''Message body is empty''), w)
      | Some payload \<Rightarrow>
          (case processMessage_try api payload now (log INFO ''Processing notification'' w) of
             (Inr u, w1) \<Rightarrow> (Inr (), w1)
           | (Inl e, w1) \<Rightarrow> handleError payload e now w1))"

section \<open>The provider webhook\<close>

text \<open>
  The request body is \<open>any\<close> in the source: whatever JSON the client posts.  The model
  keeps of a value what the handler does with it.

  \<^item> A value at a place where the handler iterates (\<open>body.entry\<close>, \<open>entry.changes\<close>,
    \<open>value.statuses\<close>, \<open>value.messages\<close>) is \<open>Absent\<close> when it is missing or falsy,
    \<open>Items xs\<close> when \<open>for ... of\<close> can iterate it (an array; a non-empty string iterates
    as members without properties), and \<open>NotIterable\<close> when it is any other truthy value
    (a number, \<open>true\<close>, an object): \<open>for ... of\<close> throws a TypeError on it.
  \<^item> A member of such an array is \<open>None\<close> when it is \<open>null\<close>: reading a property of it
    throws a TypeError.  Any other member is given by the properties the handler reads;
    a member that is no object has none of them.
  \<^item> \<open>change.value\<close> is \<open>None\<close> when it is \<open>null\<close>, missing or has no properties
    (\<open>change.value?.statuses\<close> is then \<open>undefined\<close>).
  \<^item> The body itself is \<open>None\<close> when it is \<open>null\<close> or missing.
\<close>

datatype 'a JsArray = Absent | Items "'a option list" | NotIterable

text \<open>
  \<open>x || []\<close> followed by \<open>for ... of\<close>: the members to visit, or the TypeError.
\<close>

definition iterate :: "'a JsArray \<Rightarrow> error + 'a option list" where
  "iterate a =
     (case a of
        Absent \<Rightarrow> Inr []
      | Items xs \<Rightarrow> Inr xs
      | NotIterable \<Rightarrow> Inl (TypeError ''is not iterable''))"

text \<open>
  A status entry.  \<open>st_id\<close> is \<open>None\<close> when \<open>status.id\<close> is not a string; \<open>st_status\<close> is
  the value the \<open>switch\<close> compares (a value that is no string matches no case, like the
  empty string); \<open>st_timestamp\<close> is \<open>parseInt(status.timestamp)\<close>, \<open>None\<close> when that is
  \<open>NaN\<close>; \<open>st_errors\<close> are the members of \<open>status.errors\<close>, none when the value is missing
  or has no positive \<open>length\<close>.
\<close>

record StatusError =
  se_code :: "int option"
  se_title :: "string option"

record StatusEntry =
  st_id :: "string option"
  st_status :: string
  st_timestamp :: "int option"
  st_errors :: "StatusError option list"

record IncomingMessage =
  msg_from :: "string option"
  msg_type :: "string option"
  msg_id :: "string option"

record ChangeValue =
  statuses :: "StatusEntry JsArray"
  messages :: "IncomingMessage JsArray"

record Change =
  change_value :: "ChangeValue option"

record Entry =
  changes :: "Change JsArray"

record WebhookBody =
  object :: string
  entry :: "Entry JsArray"

text \<open>
  \<open>new Date(v)\<close>: the time value is valid up to 8.64e15 milliseconds either side of the
  epoch; beyond that, and for \<open>NaN\<close>, the Date is invalid.
\<close>

datatype JsDate = Date int | InvalidDate

definition maxTimeValue :: int where
  "maxTimeValue = 8640000000000000"

definition newDate :: "int option \<Rightarrow> JsDate" where
  "newDate v =
     (case v of
        None \<Rightarrow> InvalidDate
      | Some ms \<Rightarrow> if \<bar>ms\<bar> \<le> maxTimeValue then Date ms else InvalidDate)"

text \<open>\<open>new Date(parseInt(status.timestamp) * 1000)\<close>\<close>

definition callbackDate :: "StatusEntry \<Rightarrow> JsDate" where
  "callbackDate st = newDate (map_option (\<lambda>s. s * 1000) (st_timestamp st))"

text \<open>The \<open>updates\<close> object that the handler builds; its dates may be invalid.\<close>

record CallbackUpdates =
  cu_errorCode :: "int option"
  cu_errorMessage :: "string option"
  cu_sentAt :: "JsDate option"
  cu_deliveredAt :: "JsDate option"
  cu_readAt :: "JsDate option"
  cu_failedAt :: "JsDate option"

definition no_callback_updates :: CallbackUpdates where
  "no_callback_updates =
     \<lparr> cu_errorCode = None, cu_errorMessage = None, cu_sentAt = None, cu_deliveredAt = None,
       cu_readAt = None, cu_failedAt = None \<rparr>"

text \<open>
  The database client checks the arguments of a call before it queries: an update
  that carries an invalid Date is refused with a validation error and nothing is
  written.  A valid Date is stored as its time value.
\<close>

fun validDate :: "JsDate option \<Rightarrow> bool" where
  "validDate (Some InvalidDate) = False"
| "validDate _ = True"

fun timeValue :: "JsDate option \<Rightarrow> int option" where
  "timeValue (Some (Date t)) = Some t"
| "timeValue _ = None"

definition prismaUpdates :: "CallbackUpdates \<Rightarrow> error + StatusUpdates" where
  "prismaUpdates u =
     (if validDate (cu_sentAt u) \<and> validDate (cu_deliveredAt u) \<and> validDate (cu_readAt u)
         \<and> validDate (cu_failedAt u)
      then Inr \<lparr> u_whatsappMessageId = None, u_errorCode = cu_errorCode u,
                 u_errorMessage = cu_errorMessage u, u_sentAt = timeValue (cu_sentAt u),
                 u_deliveredAt = timeValue (cu_deliveredAt u),
                 u_readAt = timeValue (cu_readAt u), u_failedAt = timeValue (cu_failedAt u) \<rparr>
      else Inl (PrismaValidationError ''Provided Date object is invalid''))"

text \<open>
  The handler reaches the store through the module objects \<open>notificationRepository\<close> and
  \<open>deliveryLogRepository\<close>; they are a parameter, so that a store whose calls throw can
  be put in their place.  \<open>prismaRepo\<close> is the repository of the source.
\<close>

record Repo =
  repo_findById :: "string \<Rightarrow> World \<Rightarrow> (error + Notification option) \<times> World"
  repo_updateStatus ::
    "string \<Rightarrow> NotificationStatus \<Rightarrow> StatusUpdates \<Rightarrow> World \<Rightarrow> (error + Notification) \<times> World"
  repo_createLog :: "DeliveryLog \<Rightarrow> World \<Rightarrow> (error + DeliveryLog) \<times> World"

definition prismaRepo :: Repo where
  "prismaRepo = \<lparr> repo_findById = findById, repo_updateStatus = updateStatus,
                   repo_createLog = deliveryLog_create \<rparr>"

text \<open>
  The \<open>switch (statusValue)\<close>: the new status and the \<open>updates\<close> object, or the TypeError
  of \<open>status.errors[0].code\<close> on a \<open>null\<close> first error.
\<close>

definition statusSwitch ::
  "StatusEntry \<Rightarrow> Notification \<Rightarrow> error + (NotificationStatus \<times> CallbackUpdates)" where
  "statusSwitch st notification =
     (if st_status st = ''sent''
        then Inr (sent, no_callback_updates\<lparr> cu_sentAt := Some (callbackDate st) \<rparr>)
      else if st_status st = ''delivered''
        then Inr (delivered, no_callback_updates\<lparr> cu_deliveredAt := Some (callbackDate st) \<rparr>)
      else if st_status st = ''read''
        then Inr (read, no_callback_updates\<lparr> cu_readAt := Some (callbackDate st) \<rparr>)
      else if st_status st = ''failed''
        then (case st_errors st of
                [] \<Rightarrow> Inr (failed, no_callback_updates\<lparr> cu_failedAt := Some (callbackDate st) \<rparr>)
              | None # es \<Rightarrow> Inl (TypeError ''Cannot read properties of null'')
              | Some e # es \<Rightarrow>
                  Inr (failed,
                       no_callback_updates\<lparr> cu_failedAt := Some (callbackDate st),
                                             cu_errorCode := se_code e,
                                             cu_errorMessage := se_title e \<rparr>))
      else Inr (status notification, no_callback_updates))"

text \<open>
  The \<open>try\<close> block of one status entry.  A lookup whose id is no string is refused by
  the database client.
\<close>

definition processStatus_try :: "Repo \<Rightarrow> StatusEntry \<Rightarrow> World \<Rightarrow> (error + unit) \<times> World" where
  "processStatus_try R st w =
     (case st_id st of
        None \<Rightarrow> (Inl (PrismaValidationError ''Argument id is missing''), w)
      | Some whatsappMessageId' \<Rightarrow>
          (case repo_findById R whatsappMessageId' w of
             (Inl e, w1) \<Rightarrow> (Inl e, w1)
           | (Inr None, w1) \<Rightarrow>
               (Inr (), log WARN ''Notification not found for status update'' w1)
           | (Inr (Some notification), w1) \<Rightarrow>
               (case statusSwitch st notification of
                  Inl e \<Rightarrow> (Inl e, w1)
                | Inr (newStatus, updates) \<Rightarrow>
                    (case prismaUpdates updates of
                       Inl e \<Rightarrow> (Inl e, w1)
                     | Inr checked \<Rightarrow>
                         (case repo_updateStatus R (nid notification) newStatus checked w1 of
                            (Inl e, w2) \<Rightarrow> (Inl e, w2)
                          | (Inr n2, w2) \<Rightarrow>
                              (case repo_createLog R
                                      \<lparr> notificationId = nid notification,
                                        logAttemptNumber = attemptNumber notification,
                                        logStatus = newStatus,
                                        logWhatsappMessageId = Some whatsappMessageId',
                                        logErrorCode = cu_errorCode updates,
                                        logErrorMessage = cu_errorMessage updates \<rparr> w2 of
                                 (Inl e, w3) \<Rightarrow> (Inl e, w3)
                               | (Inr l, w3) \<Rightarrow>
                                   (Inr (), log INFO ''Status update processed'' w3)))))))"

text \<open>
  One iteration of the loop over an entry that is an object: the log line, the \<open>try\<close>
  block, and its \<open>catch\<close>, which logs and goes on.
\<close>

definition processStatus :: "Repo \<Rightarrow> StatusEntry \<Rightarrow> World \<Rightarrow> World" where
  "processStatus R st w =
     (case processStatus_try R st (log INFO ''Processing status update'' w) of
        (Inr u, w1) \<Rightarrow> w1
      | (Inl e, w1) \<Rightarrow> log ERROR ''Error processing status update'' w1)"

text \<open>
  The loop of \<open>processStatusUpdates\<close>.  \<open>status.id\<close> is read before the \<open>try\<close>: on a
  \<open>null\<close> member the TypeError leaves the function.
\<close>

fun processStatusList :: "Repo \<Rightarrow> StatusEntry option list \<Rightarrow> World \<Rightarrow> (error + unit) \<times> World" where
  "processStatusList R [] w = (Inr (), w)"
| "processStatusList R (None # rest) w =
     (Inl (TypeError ''Cannot read properties of null''), w)"
| "processStatusList R (Some st # rest) w = processStatusList R rest (processStatus R st w)"

definition processStatusUpdates :: "Repo \<Rightarrow> StatusEntry JsArray \<Rightarrow> World \<Rightarrow> (error + unit) \<times> World" where
  "processStatusUpdates R sts w =
     (case iterate sts of
        Inl e \<Rightarrow> (Inl e, w)
      | Inr xs \<Rightarrow> processStatusList R xs w)"

fun processMessageList :: "IncomingMessage option list \<Rightarrow> World \<Rightarrow> (error + unit) \<times> World" where
  "processMessageList [] w = (Inr (), w)"
| "processMessageList (None # rest) w =
     (Inl (TypeError ''Cannot read properties of null''), w)"
| "processMessageList (Some m # rest) w =
     processMessageList rest (log INFO ''Received incoming message'' w)"

definition processIncomingMessages :: "IncomingMessage JsArray \<Rightarrow> World \<Rightarrow> (error + unit) \<times> World" where
  "processIncomingMessages ms w =
     (case iterate ms of
        Inl e \<Rightarrow> (Inl e, w)
      | Inr xs \<Rightarrow> processMessageList xs w)"

text \<open>
  The body of the loop over \<open>entry.changes\<close>: \<open>if (change.value?.statuses)\<close>, then
  \<open>if (change.value?.messages)\<close>.  A \<open>null\<close> change throws on \<open>change.value\<close>.
\<close>

definition truthy :: "'a JsArray \<Rightarrow> bool" where
  "truthy a = (a \<noteq> Absent)"

definition processChange :: "Repo \<Rightarrow> Change option \<Rightarrow> World \<Rightarrow> (error + unit) \<times> World" where
  "processChange R change w =
     (case change of
        None \<Rightarrow> (Inl (TypeError ''Cannot read properties of null''), w)
      | Some c \<Rightarrow>
          (case change_value c of
             None \<Rightarrow> (Inr (), w)
           | Some v \<Rightarrow>
               (case (if truthy (statuses v) then processStatusUpdates R (statuses v) w
                      else (Inr (), w)) of
                  (Inl e, w1) \<Rightarrow> (Inl e, w1)
                | (Inr u, w1) \<Rightarrow>
                    (if truthy (messages v) then processIncomingMessages (messages v) w1
                     else (Inr (), w1)))))"

fun processChanges :: "Repo \<Rightarrow> Change option list \<Rightarrow> World \<Rightarrow> (error + unit) \<times> World" where
  "processChanges R [] w = (Inr (), w)"
| "processChanges R (c # cs) w =
     (case processChange R c w of
        (Inl e, w1) \<Rightarrow> (Inl e, w1)
      | (Inr u, w1) \<Rightarrow> processChanges R cs w1)"

text \<open>
  The body of the loop over \<open>body.entry || []\<close>: a \<open>null\<close> entry throws on
  \<open>entry.changes\<close>, and \<open>entry.changes || []\<close> is iterated.
\<close>

definition processEntry :: "Repo \<Rightarrow> Entry option \<Rightarrow> World \<Rightarrow> (error + unit) \<times> World" where
  "processEntry R e w =
     (case e of
        None \<Rightarrow> (Inl (TypeError ''Cannot read properties of null''), w)
      | Some en \<Rightarrow>
          (case iterate (changes en) of
             Inl err \<Rightarrow> (Inl err, w)
           | Inr cs \<Rightarrow> processChanges R cs w))"

fun processEntries :: "Repo \<Rightarrow> Entry option list \<Rightarrow> World \<Rightarrow> (error + unit) \<times> World" where
  "processEntries R [] w = (Inr (), w)"
| "processEntries R (e # es) w =
     (case processEntry R e w of
        (Inl err, w1) \<Rightarrow> (Inl err, w1)
      | (Inr u, w1) \<Rightarrow> processEntries R es w1)"

text \<open>The \<open>try\<close> block of \<open>POST /v1/webhooks/whatsapp\<close>.\<close>

definition webhookPost_try :: "Repo \<Rightarrow> WebhookBody option \<Rightarrow> World \<Rightarrow> (error + unit) \<times> World" where
  "webhookPost_try R body w =
     (case body of
        None \<Rightarrow> (Inl (TypeError ''Cannot read properties of null''), w)
      | Some b \<Rightarrow>
          if object b = ''whatsapp_business_account''
          then (case iterate (entry b) of
                  Inl e \<Rightarrow> (Inl e, w)
                | Inr es \<Rightarrow> processEntries R es w)
          else (Inr (), w))"

text \<open>\<open>POST /v1/webhooks/whatsapp\<close>: the HTTP status of the reply, and the world after.\<close>

definition webhookPost :: "Repo \<Rightarrow> WebhookBody option \<Rightarrow> World \<Rightarrow> int \<times> World" where
  "webhookPost R body w =
     (case webhookPost_try R body (log INFO ''Received webhook'' w) of
        (Inr u, w1) \<Rightarrow> (200, w1)
      | (Inl e, w1) \<Rightarrow> (500, log ERROR ''Error processing webhook'' w1))"

section \<open>Request validation: the recipient schema\<close>

text \<open>
  \<open>phoneNumberRegex = /^\+[1-9]\d{1,14}$/\<close>.  A pattern of this shape is an anchored
  sequence of quantified atoms; \<open>regex_test\<close> is \<open>RegExp.prototype.test\<close> for such
  patterns, trying every repetition count an atom allows.  Without the \<open>m\<close> flag \<open>$\<close>
  matches at the end of the input only.
\<close>

datatype Atom = Lit char | Range char char | Digit

type_synonym Regex = "(Atom \<times> nat \<times> nat) list"

fun atom_matches :: "Atom \<Rightarrow> char \<Rightarrow> bool" where
  "atom_matches (Lit c) x = (x = c)"
| "atom_matches (Range a b) x = ((of_char a :: nat) \<le> of_char x \<and> (of_char x :: nat) \<le> of_char b)"
| "atom_matches Digit x = ((48::nat) \<le> of_char x \<and> (of_char x :: nat) \<le> 57)"

fun regex_test :: "Regex \<Rightarrow> string \<Rightarrow> bool" where
  "regex_test [] s = (s = [])"
| "regex_test ((a, lo, hi) # r) s =
     list_ex (\<lambda>n. n \<le> length s \<and> list_all (atom_matches a) (take n s) \<and> regex_test r (drop n s))
       [lo ..< Suc hi]"

definition phoneNumberRegex :: Regex where
  "phoneNumberRegex = [(Lit CHR ''+'', 1, 1), (Range CHR ''1'' CHR ''9'', 1, 1), (Digit, 1, 14)]"

record Recipient =
  in_phone_number :: string
  in_country_code :: "string option"

text \<open>\<open>recipientSchema\<close>: the list of issues, or the parsed recipient.\<close>

definition recipientSchema :: "Recipient \<Rightarrow> string list + Recipient" where
  "recipientSchema r =
     (let issues =
            (if regex_test phoneNumberRegex (in_phone_number r) then []
             else [''Phone number must be in E.164 format'']) @
            (case in_country_code r of
               None \<Rightarrow> []
             | Some c \<Rightarrow> if length c = 2 then []
                          else [''String must contain exactly 2 character(s)''])
      in if issues = [] then Inr r else Inl issues)"

text \<open>
  The language of \<open>^\+[1-9]\d{1,14}$\<close> written out: a plus sign, one digit from 1 to 9,
  then between 1 and 14 digits, and nothing else.
\<close>

definition is_E164 :: "string \<Rightarrow> bool" where
  "is_E164 s =
     (case s of
        p # d # ds \<Rightarrow>
          p = CHR ''+'' \<and> d \<in> set ''123456789'' \<and> 1 \<le> length ds \<and> length ds \<le> 14
          \<and> list_all (\<lambda>c. c \<in> set ''0123456789'') ds
      | _ \<Rightarrow> False)"

section \<open>Well-formed webhook bodies and example data\<close>

text \<open>
  The bodies on which nothing throws outside the \<open>try\<close> blocks of the status entries:
  every value the handler iterates is absent or an array, and no member of these arrays
  is \<open>null\<close>.  A body that is not a \<open>whatsapp_business_account\<close> payload is not looked into.
\<close>

definition membersOk :: "'a JsArray \<Rightarrow> bool" where
  "membersOk a =
     (case a of
        Absent \<Rightarrow> True
      | Items xs \<Rightarrow> list_all (\<lambda>x. x \<noteq> None) xs
      | NotIterable \<Rightarrow> False)"

definition changeOk :: "Change option \<Rightarrow> bool" where
  "changeOk change =
     (case change of
        None \<Rightarrow> False
      | Some c \<Rightarrow>
          (case change_value c of
             None \<Rightarrow> True
           | Some v \<Rightarrow> membersOk (statuses v) \<and> membersOk (messages v)))"

definition entryOk :: "Entry option \<Rightarrow> bool" where
  "entryOk e =
     (case e of
        None \<Rightarrow> False
      | Some en \<Rightarrow>
          (case changes en of
             Absent \<Rightarrow> True
           | Items cs \<Rightarrow> list_all changeOk cs
           | NotIterable \<Rightarrow> False))"

definition bodyOk :: "WebhookBody option \<Rightarrow> bool" where
  "bodyOk body =
     (case body of
        None \<Rightarrow> False
      | Some b \<Rightarrow>
          if object b = ''whatsapp_business_account''
          then (case entry b of
                  Absent \<Rightarrow> True
                | Items es \<Rightarrow> list_all entryOk es
                | NotIterable \<Rightarrow> False)
          else True)"

text \<open>A store of which every call throws.\<close>

definition failingRepo :: Repo where
  "failingRepo =
     \<lparr> repo_findById = (\<lambda>i w. (Inl (PrismaError ''P1001'' ''Cannot reach database server''), w)),
       repo_updateStatus =
         (\<lambda>i st u w. (Inl (PrismaError ''P1001'' ''Cannot reach database server''), w)),
       repo_createLog = (\<lambda>d w. (Inl (PrismaError ''P1001'' ''Cannot reach database server''), w)) \<rparr>"

text \<open>The two log lines of a status entry whose \<open>try\<close> block throws.\<close>

definition caughtLines :: "(Level \<times> string) list" where
  "caughtLines = [(INFO, ''Processing status update''), (ERROR, ''Error processing status update'')]"

definition emptyWorld :: World where
  "emptyWorld = \<lparr> notifications = Map.empty, deliveryLogs = [], rateLimits = [],
                   sqsAvailable = True, sqs = [], logs = [] \<rparr>"

definition sampleRow :: "string \<Rightarrow> NotificationStatus \<Rightarrow> Notification" where
  "sampleRow i st =
     \<lparr> nid = i, tenantId = ''tenant-1'', eventType = ''order.placed'',
       recipientPhone = ''+14155552671'', recipientCountryCode = None,
       template = Some ''order_confirmation'', message = None, priority = normal,
       scheduledFor = None, traceId = ''trace-1'', status = st, attemptNumber = 0,
       maxAttempts = 5, whatsappMessageId = None, errorCode = None, errorMessage = None,
       sentAt = None, deliveredAt = None, readAt = None, failedAt = None,
       nextRetryAt = None \<rparr>"

definition worldWith :: "Notification \<Rightarrow> World" where
  "worldWith n = emptyWorld\<lparr> notifications := [nid n \<mapsto> n] \<rparr>"

definition sampleRequest :: "int option \<Rightarrow> NotificationRequest" where
  "sampleRequest sched =
     \<lparr> r_event_type = ''order.placed'', r_phone_number = ''+14155552671'',
       r_country_code = None, r_template = Some ''order_confirmation'', r_message = None,
       r_priority = normal, r_scheduled_for = sched \<rparr>"

definition samplePayload :: "string \<Rightarrow> int \<Rightarrow> SQSMessagePayload" where
  "samplePayload i k =
     \<lparr> p_id = i, event_type = ''order.placed'', phone_number = ''+14155552671'',
       country_code = None, p_template = Some ''order_confirmation'', p_message = None,
       p_priority = normal, attempt_number = k, max_attempts = 5, scheduled_for = None,
       trace_id = ''trace-1'', tenant_id = ''tenant-1'' \<rparr>"

text \<open>The callback \<open>{id: i, status: s, timestamp: t}\<close>.\<close>

definition callback :: "string \<Rightarrow> string \<Rightarrow> int \<Rightarrow> StatusEntry" where
  "callback i s t = \<lparr> st_id = Some i, st_status = s, st_timestamp = Some t, st_errors = [] \<rparr>"

definition sampleBody :: "StatusEntry option list \<Rightarrow> WebhookBody option" where
  "sampleBody sts =
     Some \<lparr> object = ''whatsapp_business_account'',
            entry = Items [Some \<lparr> changes = Items [Some \<lparr> change_value =
                      Some \<lparr> statuses = Items sts, messages = Absent \<rparr> \<rparr>] \<rparr>] \<rparr>"


definition http503 :: error where
  "http503 = AxiosError ''Request failed with status code 503'' (Some (503, None))"

definition sentRow :: Notification where
  "sentRow = (sampleRow ''n1'' sent)\<lparr> whatsappMessageId := Some ''wamid.X'' \<rparr>"

definition fullWindow :: RateLimit where
  "fullWindow = \<lparr> rlRecipientPhone = ''+14155552671'', windowStart = 3600000,
                   windowEnd = 7200000, messageCount = 10 \<rparr>"

definition endedWindow :: RateLimit where
  "endedWindow = \<lparr> rlRecipientPhone = ''+14155552671'', windowStart = 0,
                     windowEnd = 3600000, messageCount = 10 \<rparr>"

section \<open>Properties of the repository\<close>

lemmas eval_defs =
  handleError_def Let_def deliveryLog_create_def log_def updateStatus_def incrementAttempt_def
  patch_def apply_updates_def errorUpdates_def no_updates_def err_providerCode_def
  isRetryableError_def worldWith_def emptyWorld_def sampleRow_def samplePayload_def
  sampleRequest_def callback_def

lemma updateStatus_found:
  "notifications w i = Some n \<Longrightarrow>
     updateStatus i st u w =
       (Inr (apply_updates st u n), w\<lparr>notifications := (notifications w)(i \<mapsto> apply_updates st u n)\<rparr>)"
  by (simp add: updateStatus_def Let_def)

lemma apply_updates_none: "apply_updates st no_updates n = n\<lparr>status := st\<rparr>"
  by (simp add: apply_updates_def no_updates_def patch_def)

lemma apply_updates_keeps_retry:
  "nextRetryAt (apply_updates st u n) = nextRetryAt n"
  "attemptNumber (apply_updates st u n) = attemptNumber n"
  "maxAttempts (apply_updates st u n) = maxAttempts n"
  "status (apply_updates st u n) = st"
  by (simp_all add: apply_updates_def)

lemma world_same:
  "notifications w i = Some n \<Longrightarrow> w\<lparr>notifications := (notifications w)(i \<mapsto> n)\<rparr> = w"
  by (simp add: map_upd_triv)

section \<open>Ingestion\<close>

text \<open>
  An admitted request with a fresh id is always stored as \<open>queued\<close> and always published,
  whatever its \<open>scheduled_for\<close>: neither \<open>createNotification\<close> nor \<open>create\<close> reads the field
  to choose the state.
\<close>

lemma createNotification_always_queued:
  assumes "checkLimit (r_phone_number request) 10 now w"
    and "notifications w i = None"
    and "sqsAvailable w"
  shows "\<exists>w' n. createNotification i t now request apiKey w
                   = (Inr \<lparr> res_id = i, res_status = ''queued'' \<rparr>, w')
           \<and> notifications w' i = Some n \<and> status n = queued
           \<and> scheduledFor n = r_scheduled_for request
           \<and> length (sqs w') = length (sqs w) + 1"
  using assms
  by (cases "bumpFirst (r_phone_number request) (now - now mod hourMs) (rateLimits w)")
     (simp_all add: createNotification_def create_def increment_def publishMessage_def
        log_def Let_def)

text \<open>
  C1 (evaluation at a request scheduled two minutes ahead).  The claim wants state
  \<open>scheduled\<close>, no work item and a reply reporting \<open>scheduled\<close>.  At \<open>now = 1000000\<close> with
  \<open>scheduled_for = 1120000\<close> the code stores the row as \<open>queued\<close>, publishes the work item
  and replies \<open>queued\<close>; the stored row is never one that \<open>findScheduled\<close> selects.
\<close>

theorem createNotification_scheduled_is_queued:
  "fst (createNotification ''n1'' ''trace-1'' 1000000 (sampleRequest (Some 1120000)) ''tenant-1''
          emptyWorld) = Inr \<lparr> res_id = ''n1'', res_status = ''queued'' \<rparr>
   \<and> notifications
         (snd (createNotification ''n1'' ''trace-1'' 1000000 (sampleRequest (Some 1120000))
                 ''tenant-1'' emptyWorld)) ''n1''
       = Some ((sampleRow ''n1'' queued)\<lparr> scheduledFor := Some 1120000 \<rparr>)
   \<and> sqs (snd (createNotification ''n1'' ''trace-1'' 1000000 (sampleRequest (Some 1120000))
                 ''tenant-1'' emptyWorld))
       = [(samplePayload ''n1'' 0)\<lparr> scheduled_for := Some 1120000 \<rparr>]
   \<and> \<not> dueScheduled 1120000 ((sampleRow ''n1'' queued)\<lparr> scheduledFor := Some 1120000 \<rparr>)"
  by (simp add: createNotification_def checkLimit_def sumMessageCount_def create_def
      increment_def publishMessage_def hourMs_def dueScheduled_def eval_defs)

text \<open>
  A request that fails the admission check leaves the store as it was and is answered
  through the error handler: the exception is a plain \<open>Error\<close>, which has no
  \<open>statusCode\<close>, so the reply is 500, and the reply body has no retry-after field.
\<close>

lemma postNotification_rate_limited:
  assumes "\<not> checkLimit (r_phone_number request) 10 now w"
  shows "postNotification production reqId i t now request apiKey w =
           ((500, Failure \<lparr> resp_error = ''Error'',
                             resp_message = (if production then ''An unexpected error occurred''
                                             else ''Rate limit exceeded''),
                             resp_code = (if production then None else Some ''INTERNAL_ERROR''),
                             resp_traceId = reqId \<rparr>),
            log ERROR ''Request error'' w)"
  using assms
  by (simp add: postNotification_def createNotification_def errorHandler_def Let_def)

text \<open>
  C4 (evaluation at the eleventh request of the hour).  The claim wants 429 with a
  positive \<open>retryAfterSeconds\<close> and an unchanged store.  With ten messages counted in the
  current window the code answers 500 with the body \<open>{error, message, code, traceId}\<close>;
  the store is unchanged (only the log line of the error handler is added).
\<close>

theorem rate_limited_request_is_500:
  "\<not> checkLimit ''+14155552671'' 10 5400000 (emptyWorld\<lparr> rateLimits := [fullWindow] \<rparr>)
   \<and> postNotification False ''req-1'' ''n1'' ''trace-1'' 5400000 (sampleRequest None) ''tenant-1''
       (emptyWorld\<lparr> rateLimits := [fullWindow] \<rparr>)
     = ((500, Failure \<lparr> resp_error = ''Error'', resp_message = ''Rate limit exceeded'',
                        resp_code = Some ''INTERNAL_ERROR'', resp_traceId = ''req-1'' \<rparr>),
        (emptyWorld\<lparr> rateLimits := [fullWindow] \<rparr>)\<lparr> logs := [(ERROR, ''Request error'')] \<rparr>)"
  by (simp add: postNotification_def createNotification_def errorHandler_def checkLimit_def
      sumMessageCount_def hourMs_def fullWindow_def eval_defs)

section \<open>State writes\<close>

text \<open>
  C2 (as amended).  \<open>updateStatus\<close> checks no state-machine predicate: for a stored row
  it writes whatever status it is given, from whatever status the row has, and returns
  the row; its only error is the missing row (Prisma's P2025), and there is no
  illegal-transition error.  Writing \<open>processing\<close> without updates to a row that is
  already \<open>processing\<close> changes nothing.
\<close>

theorem updateStatus_unconditional:
  "(notifications w i = Some n \<longrightarrow>
      updateStatus i st u w =
        (Inr (apply_updates st u n),
         w\<lparr>notifications := (notifications w)(i \<mapsto> apply_updates st u n)\<rparr>)
      \<and> status (apply_updates st u n) = st)
   \<and> (notifications w i = None \<longrightarrow>
      updateStatus i st u w = (Inl (PrismaError ''P2025'' ''Record to update not found''), w))
   \<and> (notifications w i = Some n \<and> status n = processing \<longrightarrow>
      updateStatus i processing no_updates w = (Inr n, w))"
proof (intro conjI impI)
  assume "notifications w i = Some n"
  then show "updateStatus i st u w =
        (Inr (apply_updates st u n),
         w\<lparr>notifications := (notifications w)(i \<mapsto> apply_updates st u n)\<rparr>)"
    by (rule updateStatus_found)
next
  show "status (apply_updates st u n) = st"
    by (simp add: apply_updates_def)
next
  assume "notifications w i = None"
  then show "updateStatus i st u w = (Inl (PrismaError ''P2025'' ''Record to update not found''), w)"
    by (simp add: updateStatus_def)
next
  assume a: "notifications w i = Some n \<and> status n = processing"
  then have "apply_updates processing no_updates n = n"
    by (simp add: apply_updates_none)
  with a show "updateStatus i processing no_updates w = (Inr n, w)"
    by (simp add: updateStatus_found world_same)
qed

theorem updateStatus_unconditional_witness:
  "notifications (worldWith (sampleRow ''n1'' read)) ''n1'' = Some (sampleRow ''n1'' read)
   \<and> updateStatus ''n1'' queued no_updates (worldWith (sampleRow ''n1'' read)) =
       (Inr (sampleRow ''n1'' queued), worldWith (sampleRow ''n1'' queued))
   \<and> notifications emptyWorld ''n1'' = None
   \<and> updateStatus ''n1'' queued no_updates emptyWorld =
       (Inl (PrismaError ''P2025'' ''Record to update not found''), emptyWorld)
   \<and> status (sampleRow ''n1'' processing) = processing
   \<and> updateStatus ''n1'' processing no_updates (worldWith (sampleRow ''n1'' processing)) =
       (Inr (sampleRow ''n1'' processing), worldWith (sampleRow ''n1'' processing))"
  using updateStatus_unconditional
      [of "worldWith (sampleRow ''n1'' read)" "''n1''" "sampleRow ''n1'' read" queued no_updates]
    updateStatus_unconditional
      [of emptyWorld "''n1''" "sampleRow ''n1'' read" queued no_updates]
    updateStatus_unconditional
      [of "worldWith (sampleRow ''n1'' processing)" "''n1''" "sampleRow ''n1'' processing"
          queued no_updates]
  by (simp add: worldWith_def emptyWorld_def sampleRow_def apply_updates_none)

text \<open>
  The transition \<open>read \<rightarrow> processing\<close>, which the claim has rejected, is written.
\<close>

theorem updateStatus_read_to_processing_counterexample:
  "updateStatus ''n1'' processing no_updates (worldWith (sampleRow ''n1'' read)) =
     (Inr (sampleRow ''n1'' processing), worldWith (sampleRow ''n1'' processing))"
  by (simp add: updateStatus_def Let_def worldWith_def emptyWorld_def sampleRow_def
      apply_updates_none)

text \<open>
  The processor's first write is this call: whatever state the row is in, it is
  \<open>processing\<close> when the send is attempted, and stays so when the send throws.
\<close>

lemma processMessage_try_writes_processing:
  assumes "notifications w (p_id p) = Some n" and "sendWhatsAppMessage api p = Inl e"
  shows "processMessage_try api p now w =
           (Inl e, w\<lparr>notifications := (notifications w)(p_id p \<mapsto> n\<lparr>status := processing\<rparr>)\<rparr>)"
  using assms
  by (simp add: processMessage_try_def updateStatus_found apply_updates_none)

section \<open>The rate-limit check\<close>

lemma checkLimit_sum:
  "checkLimit recipient limit now w =
     (sum_list (map messageCount (filter (inCheckedWindow recipient now) (rateLimits w))) < limit)"
proof -
  have f: "(\<lambda>r. rlRecipientPhone r = recipient \<and> windowEnd r > now \<and> windowStart r > now - hourMs)
             = inCheckedWindow recipient now"
    by (rule ext) (simp add: inCheckedWindow_def)
  show ?thesis
    by (simp add: checkLimit_def Let_def sumMessageCount_def f)
qed

text \<open>
  C5 (as amended).  \<open>checkLimit\<close> is true exactly when the sum of \<open>messageCount\<close> over the
  recipient's stored windows that are still open (\<open>windowEnd > now\<close>) and started less
  than an hour ago (\<open>windowStart > now - 1h\<close>) is strictly less than the limit; a stored
  window that has ended, such as the previous hour's, does not count.
\<close>

theorem checkLimit_open_windows_only:
  "(checkLimit recipient limit now w \<longleftrightarrow>
      sum_list (map messageCount (filter (inCheckedWindow recipient now) (rateLimits w))) < limit)
   \<and> (windowEnd r \<le> now \<longrightarrow>
        checkLimit recipient limit now (w\<lparr>rateLimits := r # rateLimits w\<rparr>)
          = checkLimit recipient limit now w)"
  by (simp add: checkLimit_sum inCheckedWindow_def)

theorem checkLimit_open_windows_only_witness:
  "windowEnd endedWindow \<le> 5400000
   \<and> checkLimit ''+14155552671'' 10 5400000 (emptyWorld\<lparr>rateLimits := [endedWindow]\<rparr>)
   \<and> checkLimit ''+14155552671'' 10 5400000 emptyWorld"
  using checkLimit_open_windows_only
      [of "''+14155552671''" 10 5400000 emptyWorld endedWindow]
  by (simp add: emptyWorld_def endedWindow_def inCheckedWindow_def)

text \<open>
  At 01:30 the window 00:00-01:00 with ten messages overlaps the last hour, so the rule
  of the specification refuses; the code admits.
\<close>

theorem checkLimit_previous_hour_counterexample:
  "checkLimit ''+14155552671'' 10 5400000 (emptyWorld\<lparr>rateLimits := [endedWindow]\<rparr>)
   \<and> \<not> check_spec_sliding ''+14155552671'' 10 5400000
          (emptyWorld\<lparr>rateLimits := [endedWindow]\<rparr>)"
  by (simp add: checkLimit_def check_spec_sliding_def overlapsLastHour_def Let_def hourMs_def
      sumMessageCount_def emptyWorld_def endedWindow_def)

section \<open>The processor's failure handling\<close>

lemma handleError_final_branch:
  assumes n: "notifications w (p_id p) = Some n"
    and b: "\<not> (isRetryableError err \<and> attempt_number p + 1 < max_attempts p)"
  shows "\<exists>w'. handleError p err now w = (Inr (), w')
           \<and> notifications w' (p_id p) =
               Some (apply_updates failed ((errorUpdates err)\<lparr> u_failedAt := Some now \<rparr>) n)
           \<and> deliveryLogs w' = deliveryLogs w @
               [\<lparr> notificationId = p_id p, logAttemptNumber = attempt_number p + 1,
                  logStatus = failed, logWhatsappMessageId = None,
                  logErrorCode = err_providerCode err,
                  logErrorMessage = Some (err_message err) \<rparr>]"
  using assms
  by (auto simp add: handleError_def Let_def deliveryLog_create_def log_def updateStatus_def)

text \<open>
  On a permanent error, or a retryable one with the attempts used up, the row becomes
  \<open>failed\<close> with \<open>failedAt\<close> set and one log row is written; \<open>nextRetryAt\<close> and
  \<open>attemptNumber\<close> keep the values they had.
\<close>

lemma handleError_final_keeps_nextRetryAt:
  assumes n: "notifications w (p_id p) = Some n"
    and b: "\<not> (isRetryableError err \<and> attempt_number p + 1 < max_attempts p)"
  shows "\<exists>w' n'. handleError p err now w = (Inr (), w')
           \<and> notifications w' (p_id p) = Some n'
           \<and> status n' = failed \<and> failedAt n' = Some now
           \<and> nextRetryAt n' = nextRetryAt n \<and> attemptNumber n' = attemptNumber n"
  using handleError_final_branch [OF n b, of now]
  by (auto simp add: apply_updates_def patch_def)


subsection \<open>The retry branch\<close>

text \<open>
  On a retryable error with attempts left the failed log row is written and then the
  call of \<open>calculateRetryDelay\<close> throws: neither \<open>updateStatus\<close> nor \<open>incrementAttempt\<close> is
  reached, so the notification row is as it was and \<open>nextRetryAt\<close> is not written.
\<close>

lemma handleError_retry_branch_throws:
  assumes n: "notifications w (p_id p) = Some n"
    and r: "isRetryableError err"
    and b: "attempt_number p + 1 < max_attempts p"
  shows "handleError p err now w =
           (Inl (TypeError ''calculateRetryDelay is not a function''),
            (log ERROR ''Failed to send notification'' w)
              \<lparr> deliveryLogs := deliveryLogs w @
                   [\<lparr> notificationId = p_id p, logAttemptNumber = attempt_number p + 1,
                      logStatus = failed, logWhatsappMessageId = None,
                      logErrorCode = err_providerCode err,
                      logErrorMessage = Some (err_message err) \<rparr>] \<rparr>)"
  using assms
  by (simp add: handleError_def Let_def deliveryLog_create_def log_def calculateRetryDelay_def)

text \<open>
  C8 (evaluation at a first failed attempt).  The claim wants \<open>next_retry_at\<close> set to
  \<open>now\<close> plus the computed delay.  The row \<open>n1\<close> is \<open>processing\<close> and the payload has
  \<open>attempt_number = 0\<close>, \<open>max_attempts = 5\<close>; the send fails with HTTP 503 at time 5000.
  The code writes the failed log row of attempt 1 and then throws a TypeError at the
  call of \<open>calculateRetryDelay\<close>, which the shared package does not export: the row
  stays \<open>processing\<close> with attempt counter 0 and no \<open>nextRetryAt\<close>.
\<close>

theorem handleError_retry_throws_before_nextRetryAt:
  "isRetryableError http503
   \<and> attempt_number (samplePayload ''n1'' 0) + 1 < max_attempts (samplePayload ''n1'' 0)
   \<and> handleError (samplePayload ''n1'' 0) http503 5000 (worldWith (sampleRow ''n1'' processing))
     = (Inl (TypeError ''calculateRetryDelay is not a function''),
        (worldWith (sampleRow ''n1'' processing))
          \<lparr> deliveryLogs :=
              [\<lparr> notificationId = ''n1'', logAttemptNumber = 1, logStatus = failed,
                 logWhatsappMessageId = None, logErrorCode = None,
                 logErrorMessage = Some ''Request failed with status code 503'' \<rparr>],
            logs := [(ERROR, ''Failed to send notification'')] \<rparr>)
   \<and> nextRetryAt (sampleRow ''n1'' processing) = None
   \<and> attemptNumber (sampleRow ''n1'' processing) = 0"
  by (simp add: eval_defs http503_def calculateRetryDelay_def)

section \<open>Provider status callbacks\<close>

lemma processStatus_found:
  assumes "st_id st = Some i" and "notifications w i = Some n" and "nid n = i"
    and "statusSwitch st n = Inr (newStatus, updates)"
    and "prismaUpdates updates = Inr checked"
  shows "processStatus prismaRepo st w =
           log INFO ''Status update processed''
             ((log INFO ''Processing status update'' w)
                \<lparr> notifications := (notifications w)(i \<mapsto> apply_updates newStatus checked n),
                  deliveryLogs := deliveryLogs w @
                    [\<lparr> notificationId = i, logAttemptNumber = attemptNumber n,
                       logStatus = newStatus, logWhatsappMessageId = Some i,
                       logErrorCode = cu_errorCode updates,
                       logErrorMessage = cu_errorMessage updates \<rparr>] \<rparr>)"
  using assms
  by (simp add: processStatus_def processStatus_try_def prismaRepo_def findById_def log_def
      updateStatus_def deliveryLog_create_def Let_def)

text \<open>
  A callback whose id is not the primary key of a row is logged and dropped: the tables
  are as they were.
\<close>

lemma processStatus_not_found:
  assumes "st_id st = Some i" and "notifications w i = None"
  shows "processStatus prismaRepo st w =
           log WARN ''Notification not found for status update''
             (log INFO ''Processing status update'' w)"
  using assms
  by (simp add: processStatus_def processStatus_try_def prismaRepo_def findById_def log_def)

text \<open>
  A callback whose timestamp gives no valid Date (not a number, or beyond the range of
  Date) is refused by the database client at the update; the \<open>catch\<close> of the entry logs
  it, and the row and the delivery logs are as they were.
\<close>

lemma processStatus_invalid_date:
  assumes "st_id st = Some i" and "notifications w i = Some n"
    and "st_status st = ''delivered''" and "callbackDate st = InvalidDate"
  shows "processStatus prismaRepo st w =
           log ERROR ''Error processing status update''
             (log INFO ''Processing status update'' w)"
  using assms
  by (simp add: processStatus_def processStatus_try_def prismaRepo_def findById_def log_def
      statusSwitch_def prismaUpdates_def no_callback_updates_def)

text \<open>
  When the lookup finds the row and the update of the store throws, the \<open>catch\<close> of the
  entry logs it; the world is as the throwing call left it.
\<close>

lemma processStatus_update_throws:
  assumes "repo_findById R = findById"
    and "\<forall>j s u v. \<exists>e. repo_updateStatus R j s u v = (Inl e, v)"
    and "st_id st = Some i" and "notifications w i = Some n"
  shows "processStatus R st w = w\<lparr>logs := logs w @ caughtLines\<rparr>"
proof -
  let ?w1 = "log INFO ''Processing status update'' w"
  have f: "repo_findById R i ?w1 = (Inr (Some n), ?w1)"
    using assms(1,4) by (simp add: findById_def log_def)
  have "\<exists>e. processStatus_try R st ?w1 = (Inl e, ?w1)"
  proof (cases "statusSwitch st n")
    case (Inl e)
    with f assms(3) show ?thesis by (simp add: processStatus_try_def)
  next
    case (Inr p)
    obtain newStatus updates where p: "p = (newStatus, updates)" by (cases p)
    show ?thesis
    proof (cases "prismaUpdates updates")
      case (Inl e)
      with Inr p f assms(3) show ?thesis by (simp add: processStatus_try_def)
    next
      case (Inr checked)
      from assms(2) obtain e where
        "repo_updateStatus R (nid n) newStatus checked ?w1 = (Inl e, ?w1)"
        by blast
      with Inr \<open>statusSwitch st n = Inr p\<close> p f assms(3) show ?thesis
        by (simp add: processStatus_try_def)
    qed
  qed
  then show ?thesis
    by (auto simp add: processStatus_def log_def caughtLines_def)
qed

lemma callbackDate_valid:
  "\<bar>t * 1000\<bar> \<le> maxTimeValue \<Longrightarrow> callbackDate (callback i s t) = Date (t * 1000)"
  by (simp add: callbackDate_def callback_def newDate_def)

text \<open>
  C3 (evaluation at a callback that carries the provider's message id).  The claim
  wants the row whose \<open>whatsappMessageId\<close> is the callback's id advanced.  The row
  \<open>n1\<close> is \<open>sent\<close> with \<open>whatsappMessageId = wamid.X\<close>; the callback
  \<open>{id: wamid.X, status: delivered}\<close> is looked up with \<open>findById\<close>, by primary key, finds
  nothing and is dropped: the row stays \<open>sent\<close> and no delivery log is written.
\<close>

theorem status_callback_by_provider_id_dropped:
  "processStatusUpdates prismaRepo (Items [Some (callback ''wamid.X'' ''delivered'' 1700000000)])
     (worldWith sentRow)
   = (Inr (), (worldWith sentRow)
        \<lparr> logs := [(INFO, ''Processing status update''),
                   (WARN, ''Notification not found for status update'')] \<rparr>)
   \<and> notifications (worldWith sentRow) ''n1'' = Some sentRow
   \<and> whatsappMessageId sentRow = Some ''wamid.X''
   \<and> status sentRow = sent"
  by (simp add: processStatusUpdates_def iterate_def processStatus_def processStatus_try_def
      prismaRepo_def findById_def sentRow_def eval_defs)

text \<open>
  C7 (as amended).  For a notification that the handler's lookup finds, and callbacks
  whose timestamps give valid Dates, the callbacks \<open>read\<close> and then \<open>delivered\<close> each set
  their own timestamp (\<open>readAt\<close>, \<open>deliveredAt\<close>, from the provider's timestamps) and each
  write their own status, so both timestamps are set and the stored state is that of
  the callback processed last, \<open>delivered\<close>; one delivery log is appended per callback.
\<close>

theorem callbacks_read_then_delivered:
  assumes "notifications w i = Some n" and "nid n = i"
    and "\<bar>t1 * 1000\<bar> \<le> maxTimeValue" and "\<bar>t2 * 1000\<bar> \<le> maxTimeValue"
  shows "\<exists>w'. processStatusUpdates prismaRepo
                 (Items [Some (callback i ''read'' t1), Some (callback i ''delivered'' t2)]) w
                 = (Inr (), w')
          \<and> notifications w' i =
               Some (n\<lparr> status := delivered, readAt := Some (t1 * 1000),
                         deliveredAt := Some (t2 * 1000) \<rparr>)
          \<and> map logStatus (deliveryLogs w') = map logStatus (deliveryLogs w) @ [read, delivered]"
proof -
  let ?c1 = "callback i ''read'' t1" and ?c2 = "callback i ''delivered'' t2"
  let ?n1 = "n\<lparr> status := read, readAt := Some (t1 * 1000) \<rparr>"
  let ?u1 = "no_callback_updates\<lparr> cu_readAt := Some (Date (t1 * 1000)) \<rparr>"
  let ?u2 = "no_callback_updates\<lparr> cu_deliveredAt := Some (Date (t2 * 1000)) \<rparr>"
  have id1: "st_id ?c1 = Some i" and id2: "st_id ?c2 = Some i"
    by (simp_all add: callback_def)
  have s1: "statusSwitch ?c1 n = Inr (read, ?u1)"
    using assms(3) by (simp add: statusSwitch_def callbackDate_valid) (simp add: callback_def)
  have p1: "prismaUpdates ?u1 = Inr (no_updates\<lparr> u_readAt := Some (t1 * 1000) \<rparr>)"
    by (simp add: prismaUpdates_def no_callback_updates_def no_updates_def)
  have a1: "apply_updates read (no_updates\<lparr> u_readAt := Some (t1 * 1000) \<rparr>) n = ?n1"
    by (simp add: apply_updates_def no_updates_def patch_def)
  define w1 where "w1 = processStatus prismaRepo ?c1 w"
  have w1: "notifications w1 i = Some ?n1"
    and l1: "map logStatus (deliveryLogs w1) = map logStatus (deliveryLogs w) @ [read]"
    unfolding w1_def
    by (simp_all add: processStatus_found [OF id1 assms(1) assms(2) s1 p1] a1 log_def)
  have s2: "statusSwitch ?c2 ?n1 = Inr (delivered, ?u2)"
    using assms(4) by (simp add: statusSwitch_def callbackDate_valid) (simp add: callback_def)
  have p2: "prismaUpdates ?u2 = Inr (no_updates\<lparr> u_deliveredAt := Some (t2 * 1000) \<rparr>)"
    by (simp add: prismaUpdates_def no_callback_updates_def no_updates_def)
  have a2: "apply_updates delivered (no_updates\<lparr> u_deliveredAt := Some (t2 * 1000) \<rparr>) ?n1
              = n\<lparr> status := delivered, readAt := Some (t1 * 1000), deliveredAt := Some (t2 * 1000) \<rparr>"
    by (simp add: apply_updates_def no_updates_def patch_def)
  define w2 where "w2 = processStatus prismaRepo ?c2 w1"
  have n1id: "nid ?n1 = i" using assms(2) by simp
  have w2: "notifications w2 i =
      Some (n\<lparr> status := delivered, readAt := Some (t1 * 1000), deliveredAt := Some (t2 * 1000) \<rparr>)"
    and l2: "map logStatus (deliveryLogs w2) = map logStatus (deliveryLogs w1) @ [delivered]"
    unfolding w2_def
    by (simp_all add: processStatus_found [OF id2 w1 n1id s2 p2] a2 log_def)
  have "processStatusUpdates prismaRepo (Items [Some ?c1, Some ?c2]) w = (Inr (), w2)"
    by (simp add: processStatusUpdates_def iterate_def w2_def w1_def)
  with w2 l2 l1 show ?thesis by simp
qed

theorem callbacks_read_then_delivered_witness:
  "notifications (worldWith (sampleRow ''n1'' sent)) ''n1'' = Some (sampleRow ''n1'' sent)
   \<and> nid (sampleRow ''n1'' sent) = ''n1''
   \<and> \<bar>200 * 1000\<bar> \<le> maxTimeValue \<and> \<bar>100 * 1000\<bar> \<le> maxTimeValue
   \<and> (\<exists>w'. processStatusUpdates prismaRepo
                 (Items [Some (callback ''n1'' ''read'' 200), Some (callback ''n1'' ''delivered'' 100)])
                 (worldWith (sampleRow ''n1'' sent)) = (Inr (), w')
          \<and> notifications w' ''n1'' =
               Some ((sampleRow ''n1'' sent)\<lparr> status := delivered, readAt := Some (200 * 1000),
                         deliveredAt := Some (100 * 1000) \<rparr>)
          \<and> map logStatus (deliveryLogs w') =
               map logStatus (deliveryLogs (worldWith (sampleRow ''n1'' sent))) @ [read, delivered])"
proof -
  have h1: "notifications (worldWith (sampleRow ''n1'' sent)) ''n1'' = Some (sampleRow ''n1'' sent)"
    by (simp add: worldWith_def sampleRow_def)
  have h2: "nid (sampleRow ''n1'' sent) = ''n1''"
    by (simp add: sampleRow_def)
  have h3: "\<bar>200 * 1000\<bar> \<le> maxTimeValue" and h4: "\<bar>100 * 1000\<bar> \<le> maxTimeValue"
    by (simp_all add: maxTimeValue_def)
  from h1 h2 h3 h4 callbacks_read_then_delivered [OF h1 h2 h3 h4] show ?thesis
    by simp
qed

text \<open>
  The row \<open>n1\<close> is \<open>sent\<close>; \<open>read\<close> arrives, then \<open>delivered\<close>: the stored state ends as
  \<open>delivered\<close>, not \<open>read\<close>.
\<close>

theorem callbacks_out_of_order_counterexample:
  "map_option status
     (notifications
        (snd (processStatusUpdates prismaRepo
                (Items [Some (callback ''n1'' ''read'' 200), Some (callback ''n1'' ''delivered'' 100)])
                (worldWith (sampleRow ''n1'' sent)))) ''n1'') = Some delivered"
  by (simp add: processStatusUpdates_def iterate_def processStatus_def processStatus_try_def
      prismaRepo_def findById_def log_def updateStatus_def deliveryLog_create_def Let_def
      statusSwitch_def callback_def callbackDate_def newDate_def maxTimeValue_def
      prismaUpdates_def no_callback_updates_def worldWith_def emptyWorld_def sampleRow_def
      apply_updates_def no_updates_def patch_def)

section \<open>The E.164 pattern\<close>

lemma char_by_code: "(of_char c :: nat) = of_char d \<Longrightarrow> c = d"
  by simp

lemma code_range_cases:
  "(48::nat) \<le> x \<Longrightarrow> x \<le> 57 \<Longrightarrow>
     x = 48 \<or> x = 49 \<or> x = 50 \<or> x = 51 \<or> x = 52 \<or> x = 53 \<or> x = 54 \<or> x = 55 \<or> x = 56 \<or> x = 57"
  by arith

lemma digit_of_code:
  assumes "(48::nat) \<le> of_char c" and "(of_char c :: nat) \<le> 57"
  shows "c \<in> set ''0123456789''"
proof -
  from code_range_cases [OF assms]
  have "(of_char c :: nat) = of_char CHR ''0'' \<or> (of_char c :: nat) = of_char CHR ''1''
      \<or> (of_char c :: nat) = of_char CHR ''2'' \<or> (of_char c :: nat) = of_char CHR ''3''
      \<or> (of_char c :: nat) = of_char CHR ''4'' \<or> (of_char c :: nat) = of_char CHR ''5''
      \<or> (of_char c :: nat) = of_char CHR ''6'' \<or> (of_char c :: nat) = of_char CHR ''7''
      \<or> (of_char c :: nat) = of_char CHR ''8'' \<or> (of_char c :: nat) = of_char CHR ''9''"
    by simp
  then have "c = CHR ''0'' \<or> c = CHR ''1'' \<or> c = CHR ''2'' \<or> c = CHR ''3'' \<or> c = CHR ''4''
      \<or> c = CHR ''5'' \<or> c = CHR ''6'' \<or> c = CHR ''7'' \<or> c = CHR ''8'' \<or> c = CHR ''9''"
    by (simp only: of_char_eq_iff)
  then show ?thesis by auto
qed

lemma digit_codes:
  "((48::nat) \<le> of_char c \<and> (of_char c :: nat) \<le> 57) = (c \<in> set ''0123456789'')"
proof
  assume "(48::nat) \<le> of_char c \<and> (of_char c :: nat) \<le> 57"
  then show "c \<in> set ''0123456789''" using digit_of_code by blast
next
  assume "c \<in> set ''0123456789''"
  then have "c = CHR ''0'' \<or> c = CHR ''1'' \<or> c = CHR ''2'' \<or> c = CHR ''3'' \<or> c = CHR ''4''
      \<or> c = CHR ''5'' \<or> c = CHR ''6'' \<or> c = CHR ''7'' \<or> c = CHR ''8'' \<or> c = CHR ''9''"
    by simp
  then show "(48::nat) \<le> of_char c \<and> (of_char c :: nat) \<le> 57"
    by (elim disjE) simp_all
qed

lemma nonzero_digit_codes:
  "((of_char CHR ''1'' :: nat) \<le> of_char c \<and> (of_char c :: nat) \<le> of_char CHR ''9'')
     = (c \<in> set ''123456789'')"
proof
  assume "(of_char CHR ''1'' :: nat) \<le> of_char c \<and> (of_char c :: nat) \<le> of_char CHR ''9''"
  then have "(48::nat) \<le> of_char c" and "(of_char c :: nat) \<le> 57" and ne: "c \<noteq> CHR ''0''"
    by auto
  then have "c \<in> set ''0123456789''" using digit_of_code by blast
  with ne show "c \<in> set ''123456789''" by simp
next
  assume "c \<in> set ''123456789''"
  then have "c = CHR ''1'' \<or> c = CHR ''2'' \<or> c = CHR ''3'' \<or> c = CHR ''4''
      \<or> c = CHR ''5'' \<or> c = CHR ''6'' \<or> c = CHR ''7'' \<or> c = CHR ''8'' \<or> c = CHR ''9''"
    by simp
  then show "(of_char CHR ''1'' :: nat) \<le> of_char c \<and> (of_char c :: nat) \<le> of_char CHR ''9''"
    by (elim disjE) simp_all
qed

lemma atom_Digit: "atom_matches Digit = (\<lambda>c. c \<in> set ''0123456789'')"
  by (rule ext) (simp only: atom_matches.simps digit_codes)

lemma atom_Range_19: "atom_matches (Range CHR ''1'' CHR ''9'') d = (d \<in> set ''123456789'')"
  by (simp only: atom_matches.simps nonzero_digit_codes)

lemma list_ex_single: "list_ex P [n ..< Suc n] = P n"
  by simp

text \<open>The last atom of an anchored pattern consumes the whole rest of the input.\<close>

lemma count_exists:
  "list_ex (\<lambda>n. n \<le> length s \<and> Q (take n s) \<and> drop n s = []) [lo ..< Suc hi]
     = (lo \<le> length s \<and> length s \<le> hi \<and> Q s)"
proof
  assume "list_ex (\<lambda>n. n \<le> length s \<and> Q (take n s) \<and> drop n s = []) [lo ..< Suc hi]"
  then obtain n where n: "lo \<le> n" "n \<le> hi" "n \<le> length s" "Q (take n s)" "drop n s = []"
    by (auto simp: list_ex_iff)
  then have "n = length s" by simp
  with n show "lo \<le> length s \<and> length s \<le> hi \<and> Q s" by simp
next
  assume "lo \<le> length s \<and> length s \<le> hi \<and> Q s"
  then show "list_ex (\<lambda>n. n \<le> length s \<and> Q (take n s) \<and> drop n s = []) [lo ..< Suc hi]"
    by (auto simp: list_ex_iff intro!: bexI [of _ "length s"])
qed

lemma count_exists_14:
  "list_ex (\<lambda>n. n \<le> length s \<and> Q (take n s) \<and> length s \<le> n) [Suc 0 ..< 15]
     = (Suc 0 \<le> length s \<and> length s \<le> 14 \<and> Q s)"
  using count_exists [of s Q "Suc 0" 14] by simp

lemma regex_test_phone: "regex_test phoneNumberRegex s = is_E164 s"
proof (cases s)
  case Nil
  then show ?thesis
    by (simp add: phoneNumberRegex_def is_E164_def list_ex_single del: upt_Suc)
next
  case (Cons p t)
  show ?thesis
  proof (cases t)
    case Nil
    with Cons show ?thesis
      by (simp add: phoneNumberRegex_def is_E164_def list_ex_single del: upt_Suc)
  next
    case (Cons d ds)
    with \<open>s = p # t\<close> show ?thesis
      by (simp add: phoneNumberRegex_def is_E164_def list_ex_single count_exists_14 atom_Digit
          atom_Range_19 del: set_simps upt_Suc atom_matches.simps(2,3))
  qed
qed

text \<open>
  C9.  The recipient schema accepts a phone number exactly when it matches
  \<open>^\+[1-9]\d{1,14}$\<close> (a plus sign, a digit from 1 to 9, then 1 to 14 digits, nothing
  before or after): the recipient parses exactly when the number matches and the
  country code, if given, has two characters; and the E.164 issue is raised exactly for
  the strings that do not match.
\<close>

theorem recipientSchema_phone_number_E164:
  "(recipientSchema r = Inr r \<longleftrightarrow>
      is_E164 (in_phone_number r)
      \<and> (case in_country_code r of None \<Rightarrow> True | Some c \<Rightarrow> length c = 2))
   \<and> ((\<exists>issues. recipientSchema r = Inl issues
                 \<and> ''Phone number must be in E.164 format'' \<in> set issues)
        \<longleftrightarrow> \<not> is_E164 (in_phone_number r))"
  by (cases "in_country_code r") (auto simp add: recipientSchema_def regex_test_phone Let_def)

theorem recipientSchema_phone_number_E164_witness:
  "is_E164 ''+14155552671'' \<and> \<not> is_E164 ''+0123'' \<and> \<not> is_E164 ''14155552671''
   \<and> \<not> is_E164 ''+1234567890123456''
   \<and> recipientSchema \<lparr> in_phone_number = ''+14155552671'', in_country_code = None \<rparr> =
       Inr \<lparr> in_phone_number = ''+14155552671'', in_country_code = None \<rparr>
   \<and> (\<exists>issues. recipientSchema \<lparr> in_phone_number = ''+0123'', in_country_code = None \<rparr> = Inl issues
         \<and> ''Phone number must be in E.164 format'' \<in> set issues)"
  using recipientSchema_phone_number_E164 [of "\<lparr> in_phone_number = ''+14155552671'', in_country_code = None \<rparr>"]
    recipientSchema_phone_number_E164 [of "\<lparr> in_phone_number = ''+0123'', in_country_code = None \<rparr>"]
  by (simp add: is_E164_def)

section \<open>The reply of the provider webhook\<close>

text \<open>
  Each loop of the handler succeeds exactly when none of its members is \<open>null\<close>:
  nothing that happens inside the \<open>try\<close> block of a status entry reaches the loop.
\<close>

lemma processStatusList_ok:
  "fst (processStatusList R xs w) = Inr () \<longleftrightarrow> list_all (\<lambda>x. x \<noteq> None) xs"
proof (induction xs arbitrary: w)
  case Nil
  then show ?case by simp
next
  case (Cons x xs)
  then show ?case by (cases x) simp_all
qed

lemma processMessageList_ok:
  "fst (processMessageList xs w) = Inr () \<longleftrightarrow> list_all (\<lambda>x. x \<noteq> None) xs"
proof (induction xs arbitrary: w)
  case Nil
  then show ?case by simp
next
  case (Cons x xs)
  then show ?case by (cases x) simp_all
qed

lemma processStatusUpdates_ok:
  "truthy sts \<Longrightarrow> fst (processStatusUpdates R sts w) = Inr () \<longleftrightarrow> membersOk sts"
  by (cases sts)
     (simp_all add: processStatusUpdates_def iterate_def membersOk_def truthy_def
        processStatusList_ok)

lemma processIncomingMessages_ok:
  "truthy ms \<Longrightarrow> fst (processIncomingMessages ms w) = Inr () \<longleftrightarrow> membersOk ms"
  by (cases ms)
     (simp_all add: processIncomingMessages_def iterate_def membersOk_def truthy_def
        processMessageList_ok)

lemma membersOk_Absent: "\<not> truthy a \<Longrightarrow> membersOk a"
  by (simp add: truthy_def membersOk_def)

lemma processChange_ok:
  "fst (processChange R c w) = Inr () \<longleftrightarrow> changeOk c"
proof (cases c)
  case None
  then show ?thesis by (simp add: processChange_def changeOk_def)
next
  case (Some ch)
  show ?thesis
  proof (cases "change_value ch")
    case None
    with Some show ?thesis by (simp add: processChange_def changeOk_def)
  next
    case (Some v)
    obtain r w1 where r: "(if truthy (statuses v) then processStatusUpdates R (statuses v) w
                           else (Inr (), w)) = (r, w1)"
      by (cases "if truthy (statuses v) then processStatusUpdates R (statuses v) w
                 else (Inr (), w)")
    have rs: "r = Inr () \<longleftrightarrow> membersOk (statuses v)"
    proof (cases "truthy (statuses v)")
      case True
      with r processStatusUpdates_ok [OF True, of R w] show ?thesis by simp
    next
      case False
      with r membersOk_Absent [OF False] show ?thesis by auto
    qed
    have c: "changeOk c \<longleftrightarrow> membersOk (statuses v) \<and> membersOk (messages v)"
      using \<open>c = Some ch\<close> Some by (simp add: changeOk_def)
    show ?thesis
    proof (cases r)
      case (Inl e)
      with rs have "\<not> membersOk (statuses v)" by simp
      with Inl r c \<open>c = Some ch\<close> Some show ?thesis
        by (simp add: processChange_def)
    next
      case (Inr u)
      with rs have ok: "membersOk (statuses v)" by simp
      show ?thesis
      proof (cases "truthy (messages v)")
        case True
        with Inr r c ok \<open>c = Some ch\<close> Some processIncomingMessages_ok [OF True, of w1]
        show ?thesis by (simp add: processChange_def)
      next
        case False
        with Inr r c ok \<open>c = Some ch\<close> Some membersOk_Absent [OF False]
        show ?thesis by (simp add: processChange_def)
      qed
    qed
  qed
qed

lemma processChanges_ok:
  "fst (processChanges R cs w) = Inr () \<longleftrightarrow> list_all changeOk cs"
proof (induction cs arbitrary: w)
  case Nil
  then show ?case by simp
next
  case (Cons c cs)
  obtain r w1 where r: "processChange R c w = (r, w1)"
    by (cases "processChange R c w")
  with processChange_ok [of R c w] have rc: "r = Inr () \<longleftrightarrow> changeOk c" by simp
  show ?case
  proof (cases r)
    case (Inl e)
    with r rc show ?thesis by simp
  next
    case (Inr u)
    with r rc Cons.IH [of w1] show ?thesis by simp
  qed
qed

lemma processEntry_ok:
  "fst (processEntry R e w) = Inr () \<longleftrightarrow> entryOk e"
proof (cases e)
  case None
  then show ?thesis by (simp add: processEntry_def entryOk_def)
next
  case (Some en)
  then show ?thesis
    by (cases "changes en")
       (simp_all add: processEntry_def entryOk_def iterate_def processChanges_ok)
qed

lemma processEntries_ok:
  "fst (processEntries R es w) = Inr () \<longleftrightarrow> list_all entryOk es"
proof (induction es arbitrary: w)
  case Nil
  then show ?case by simp
next
  case (Cons e es)
  obtain r w1 where r: "processEntry R e w = (r, w1)"
    by (cases "processEntry R e w")
  with processEntry_ok [of R e w] have re: "r = Inr () \<longleftrightarrow> entryOk e" by simp
  show ?case
  proof (cases r)
    case (Inl err)
    with r re show ?thesis by simp
  next
    case (Inr u)
    with r re Cons.IH [of w1] show ?thesis by simp
  qed
qed

lemma webhookPost_try_ok:
  "fst (webhookPost_try R body w) = Inr () \<longleftrightarrow> bodyOk body"
proof (cases body)
  case None
  then show ?thesis by (simp add: webhookPost_try_def bodyOk_def)
next
  case (Some b)
  then show ?thesis
    by (cases "entry b")
       (simp_all add: webhookPost_try_def bodyOk_def iterate_def processEntries_ok)
qed

lemma webhookPost_status:
  "fst (webhookPost R body w) = (if bodyOk body then 200 else 500)"
proof -
  obtain r w1 where r: "webhookPost_try R body (log INFO ''Received webhook'' w) = (r, w1)"
    by (cases "webhookPost_try R body (log INFO ''Received webhook'' w)")
  with webhookPost_try_ok [of R body "log INFO ''Received webhook'' w"]
  have "r = Inr () \<longleftrightarrow> bodyOk body" by simp
  with r show ?thesis
    by (cases r) (simp_all add: webhookPost_def)
qed

text \<open>
  When the lookup of the store throws, every status entry is caught and logged on its
  own, and the loop goes on to the next entry.
\<close>

lemma processStatus_lookup_throws:
  assumes "\<forall>i v. \<exists>e. repo_findById R i v = (Inl e, v)"
  shows "processStatus R st w = w\<lparr>logs := logs w @ caughtLines\<rparr>"
proof (cases "st_id st")
  case None
  then show ?thesis
    by (simp add: processStatus_def processStatus_try_def log_def caughtLines_def)
next
  case (Some i)
  from assms obtain e where
    "repo_findById R i (log INFO ''Processing status update'' w)
       = (Inl e, log INFO ''Processing status update'' w)"
    by blast
  with Some show ?thesis
    by (simp add: processStatus_def processStatus_try_def log_def caughtLines_def)
qed

lemma processStatusList_lookup_throws:
  assumes "\<forall>i v. \<exists>e. repo_findById R i v = (Inl e, v)"
  shows "processStatusList R (map Some sts) w
           = (Inr (), w\<lparr>logs := logs w @ concat (map (\<lambda>st. caughtLines) sts)\<rparr>)"
proof (induction sts arbitrary: w)
  case Nil
  then show ?case by simp
next
  case (Cons st sts)
  then show ?case
    by (simp add: processStatus_lookup_throws [OF assms])
qed

text \<open>
  C10 (as amended).  For every store, also one of which every call throws, the POST
  webhook answers 200 exactly when nothing throws outside the \<open>try\<close> blocks of the status
  entries, that is when the body is not \<open>null\<close> and, for a \<open>whatsapp_business_account\<close>
  payload, every value the handler iterates is absent or an array without \<open>null\<close>
  members; otherwise it answers 500.  Whatever the \<open>try\<close> block of a status entry throws
  is caught and logged for that entry and the loop goes on: when the lookup of the
  store throws for every entry, the run over the entries ends normally, having written
  the two log lines of each entry.
\<close>

theorem webhookPost_status_errors_caught:
  "fst (webhookPost R body w) = (if bodyOk body then 200 else 500)
   \<and> ((\<forall>i v. \<exists>e. repo_findById R i v = (Inl e, v)) \<longrightarrow>
        processStatusUpdates R (Items (map Some sts)) w
          = (Inr (), w\<lparr>logs := logs w @ concat (map (\<lambda>st. caughtLines) sts)\<rparr>))"
proof (intro conjI impI)
  show "fst (webhookPost R body w) = (if bodyOk body then 200 else 500)"
    by (rule webhookPost_status)
next
  assume "\<forall>i v. \<exists>e. repo_findById R i v = (Inl e, v)"
  then show "processStatusUpdates R (Items (map Some sts)) w
          = (Inr (), w\<lparr>logs := logs w @ concat (map (\<lambda>st. caughtLines) sts)\<rparr>)"
    by (simp add: processStatusUpdates_def iterate_def processStatusList_lookup_throws)
qed

theorem webhookPost_status_errors_caught_witness:
  "bodyOk (sampleBody [Some (callback ''wamid.A'' ''delivered'' 1700000000),
                       Some (callback ''wamid.B'' ''read'' 1700000001)])
   \<and> fst (webhookPost failingRepo
            (sampleBody [Some (callback ''wamid.A'' ''delivered'' 1700000000),
                         Some (callback ''wamid.B'' ''read'' 1700000001)]) emptyWorld) = 200
   \<and> (\<forall>i v. \<exists>e. repo_findById failingRepo i v = (Inl e, v))
   \<and> processStatusUpdates failingRepo
        (Items (map Some [callback ''wamid.A'' ''delivered'' 1700000000,
                          callback ''wamid.B'' ''read'' 1700000001])) emptyWorld
       = (Inr (), emptyWorld\<lparr>logs := [(INFO, ''Processing status update''),
                                       (ERROR, ''Error processing status update''),
                                       (INFO, ''Processing status update''),
                                       (ERROR, ''Error processing status update'')]\<rparr>)"
proof -
  have h: "\<forall>i v. \<exists>e. repo_findById failingRepo i v = (Inl e, v)"
    by (simp add: failingRepo_def)
  have b: "bodyOk (sampleBody [Some (callback ''wamid.A'' ''delivered'' 1700000000),
                       Some (callback ''wamid.B'' ''read'' 1700000001)])"
    by (simp add: bodyOk_def sampleBody_def entryOk_def changeOk_def membersOk_def)
  from webhookPost_status_errors_caught
      [of failingRepo
          "sampleBody [Some (callback ''wamid.A'' ''delivered'' 1700000000),
                       Some (callback ''wamid.B'' ''read'' 1700000001)]"
          emptyWorld
          "[callback ''wamid.A'' ''delivered'' 1700000000,
            callback ''wamid.B'' ''read'' 1700000001]"]
    h b
  show ?thesis
    by (simp add: caughtLines_def emptyWorld_def)
qed

text \<open>
  A \<open>null\<close> member of the status array: \<open>status.id\<close> is read inside the loop over the
  statuses, before the \<open>try\<close> of the iteration, so the TypeError reaches the \<open>catch\<close> of
  the route and the reply is 500.
\<close>

theorem webhookPost_null_status_counterexample:
  "fst (webhookPost prismaRepo (sampleBody [None]) emptyWorld) = 500"
  by (simp add: webhookPost_def webhookPost_try_def sampleBody_def iterate_def
      processEntry_def processChange_def truthy_def processStatusUpdates_def)

end
